theory Spec2Isabelle
  imports Complex_Main
begin

section \<open>The notebook's code cell: a seeded Gaussian sample and its histogram\<close>

text \<open>
  The repository is one notebook, \<^verbatim>\<open>index.ipynb\<close>. Its single code cell seeds NumPy's global
  generator, draws ten million standard-normal samples, computes their mean and standard
  deviation and plots a histogram with seven vertical lines. Everything else in the notebook
  is prose.

  NumPy and Matplotlib are libraries, not code of the repository. The NumPy functions the
  cell calls are therefore parameters of the model, collected in the record \<open>numpy\<close>: the
  cell is verified for every library, under the one stated assumption that seeding resets
  the generator. The generator state \<open>'g\<close>, the float scalar \<open>'f\<close> and the array \<open>'a\<close> are
  type parameters, so no floating-point arithmetic is interpreted.
\<close>

subsection \<open>The library interface the cell uses\<close>

record ('g, 'f, 'a) numpy =
  np_seed :: "nat \<Rightarrow> 'g \<Rightarrow> 'g"
  np_normal :: "int \<Rightarrow> int \<Rightarrow> nat \<Rightarrow> 'g \<Rightarrow> 'a \<times> 'g"
  np_mean :: "'a \<Rightarrow> 'f"
  np_std :: "'a \<Rightarrow> 'f"
  f_add :: "'f \<Rightarrow> 'f \<Rightarrow> 'f"
  f_sub :: "'f \<Rightarrow> 'f \<Rightarrow> 'f"
  f_scale :: "int \<Rightarrow> 'f \<Rightarrow> 'f"

text \<open>
  \<open>np_seed n g\<close> is \<^verbatim>\<open>np.random.seed(n)\<close> run on the global generator state \<open>g\<close>;
  \<open>np_normal loc scale size g\<close> is \<^verbatim>\<open>np.random.normal(loc, scale, size)\<close>, which returns the
  array and the advanced generator; \<open>f_scale k x\<close> is the product \<^verbatim>\<open>k*x\<close> of a Python int
  and a NumPy float.
\<close>

text \<open>The calls made on pyplot's current figure, with the keyword arguments the cell passes.\<close>

datatype ('f, 'a) plot_call =
    Hist 'a nat bool rat
  | Axvline 'f string string nat "string option"
  | Legend
  | Xlabel string
  | Ylabel string
  | Title string
  | Show

text \<open>
  \<open>Hist data bins density alpha\<close>; \<open>Axvline x color linestyle linewidth label\<close>, where the
  label is absent on the lines that pass none.
\<close>

subsection \<open>Interpreter state and the cell\<close>

text \<open>
  The global state the cell reads and writes: NumPy's global generator, which a fresh
  process seeds from operating-system entropy, and the calls made so far on the current
  figure.
\<close>

record ('g, 'f, 'a) interp =
  rng :: 'g
  figure :: "('f, 'a) plot_call list"

text \<open>What the cell leaves behind: its three variables and the updated global state.\<close>

record ('g, 'f, 'a) cell_out =
  out_data :: 'a
  out_mean :: 'f
  out_std :: 'f
  out_rng :: 'g
  out_figure :: "('f, 'a) plot_call list"

definition cell :: "('g, 'f, 'a) numpy \<Rightarrow> ('g, 'f, 'a) interp \<Rightarrow> ('g, 'f, 'a) cell_out" where
  "cell np s =
    (let g1 = np_seed np 42 (rng s);
         (data, g2) = np_normal np 0 1 10000000 g1;
         mean = np_mean np data;
         std = np_std np data;
         fig = figure s @
           [Hist data 30 True (7 / 10),
            Axvline mean ''r'' ''dashed'' 1 (Some ''Mean''),
            Axvline (f_sub np mean std) ''g'' ''dashed'' 1 (Some ''1 STD''),
            Axvline (f_add np mean std) ''g'' ''dashed'' 1 None,
            Axvline (f_sub np mean (f_scale np 2 std)) ''b'' ''dashed'' 1 (Some ''2 STD''),
            Axvline (f_add np mean (f_scale np 2 std)) ''b'' ''dashed'' 1 None,
            Axvline (f_sub np mean (f_scale np 3 std)) ''m'' ''dashed'' 1 (Some ''3 STD''),
            Axvline (f_add np mean (f_scale np 3 std)) ''m'' ''dashed'' 1 None,
            Legend,
            Xlabel ''Value'',
            Ylabel ''Density'',
            Title ''Histogram of the Dataset'',
            Show]
     in \<lparr>out_data = data, out_mean = mean, out_std = std, out_rng = g2, out_figure = fig\<rparr>)"

text \<open>
  The assumption on the library: \<^verbatim>\<open>np.random.seed(n)\<close> re-initialises the generator from \<open>n\<close>
  alone, whatever state it was in.
\<close>

definition seed_resets :: "('g, 'f, 'a) numpy \<Rightarrow> bool" where
  "seed_resets np = (\<forall>n g g'. np_seed np n g = np_seed np n g')"

text \<open>
  A small library to run the cell on: the generator is a counter, seeding sets it, a draw
  of \<open>size\<close> samples returns the counter it started from together with the size and
  advances the counter, so without the seeding the data would depend on the starting state.
\<close>

definition counter_numpy :: "(nat, int, nat \<times> nat) numpy" where
  "counter_numpy =
    \<lparr>np_seed = (\<lambda>n g. n),
     np_normal = (\<lambda>loc scale size g. ((g, size), g + size)),
     np_mean = (\<lambda>a. int (fst a)),
     np_std = (\<lambda>a. int (snd a)),
     f_add = (\<lambda>x y. x + y),
     f_sub = (\<lambda>x y. x - y),
     f_scale = (\<lambda>k x. k * x)\<rparr>"

text \<open>Two fresh processes: no figure yet, and generators seeded differently by the system.\<close>

definition fresh_one :: "(nat, int, nat \<times> nat) interp" where
  "fresh_one = \<lparr>rng = 1, figure = []\<rparr>"

definition fresh_two :: "(nat, int, nat \<times> nat) interp" where
  "fresh_two = \<lparr>rng = 2, figure = []\<rparr>"

section \<open>Properties\<close>

lemma cell_data_seeded:
  "out_data (cell np s) = fst (np_normal np 0 1 10000000 (np_seed np 42 (rng s)))"
  by (simp add: cell_def Let_def split: prod.split)

lemma counter_numpy_seed_resets: "seed_resets counter_numpy"
  by (simp add: seed_resets_def counter_numpy_def)

lemma counter_numpy_draw_depends_on_state:
  "fst (np_normal counter_numpy 0 1 10000000 1) \<noteq> fst (np_normal counter_numpy 0 1 10000000 2)"
  by (simp add: counter_numpy_def)

text \<open>
  C10. The cell seeds NumPy's generator with 42 before it draws its 10,000,000 normal
  samples, so the cell is deterministic: two runs that start from any two generator states
  (and the same figure) end with the same data array, the same mean and standard deviation,
  the same generator state and the same plotted figure. The library's seeding is assumed to
  reset the generator.
\<close>

theorem cell_deterministic:
  assumes "seed_resets np" and "figure s = figure s'"
  shows "cell np s = cell np s'"
proof -
  from assms(1) have "np_seed np 42 (rng s) = np_seed np 42 (rng s')"
    unfolding seed_resets_def by blast
  with assms(2) show ?thesis
    unfolding cell_def by simp
qed

theorem cell_deterministic_witness:
  "seed_resets counter_numpy
   \<and> figure fresh_one = figure fresh_two
   \<and> rng fresh_one \<noteq> rng fresh_two
   \<and> cell counter_numpy fresh_one = cell counter_numpy fresh_two"
  using cell_deterministic [of counter_numpy fresh_one fresh_two]
  by (simp add: seed_resets_def counter_numpy_def fresh_one_def fresh_two_def)

end
